theory Spec2Isabelle
  imports Main "HOL-Library.Word"
begin

unbundle bit_operations_syntax

section \<open>Machine types and the processor\<close>

type_synonym u8 = "8 word"
type_synonym u32 = "32 word"
type_synonym u64 = "64 word"

text \<open>
  The four output registers of one \<^verbatim>\<open>cpuid\<close> instruction, in the order of the
  parameters of the source's \<^verbatim>\<open>cpuid(leaf, &eax, &ebx, &ecx, &edx)\<close>:
  first \<^verbatim>\<open>eax\<close>, second \<^verbatim>\<open>ebx\<close>, third \<^verbatim>\<open>ecx\<close>, fourth \<^verbatim>\<open>edx\<close>.
\<close>

type_synonym regs = "u32 \<times> u32 \<times> u32 \<times> u32"

text \<open>
  The processor the kernel runs on: what the inline assembly of \<^verbatim>\<open>cpuid\<close>
  (cpu.c 34-39) and \<^verbatim>\<open>msr_get\<close> (cpu.c 41-43) gets back. \<^verbatim>\<open>rdmsr\<close> returns
  the pair \<^verbatim>\<open>(lo, hi)\<close>, that is (eax, edx).
\<close>

record cpu =
  cpuid_insn :: "u32 \<Rightarrow> regs"
  rdmsr_insn :: "u32 \<Rightarrow> u32 \<times> u32"

text \<open>
  A \<^verbatim>\<open>char\<close> buffer on the stack: a cell is \<open>None\<close> until the code writes it
  (a local array of C starts with indeterminate contents).
\<close>

type_synonym buffer = "u8 option list"

text \<open>
  One constructor per \<^verbatim>\<open>LOG\<close> / \<^verbatim>\<open>fb_printf\<close> call site of cpu.c, with the
  arguments that follow the format string (the format strings are Russian text and
  carry no data). A \<^verbatim>\<open>%s\<close> argument is the buffer the pointer designates, as
  it is at the time of the call.
\<close>

datatype logline =
    Log_FPU                      \<comment> \<open>line 127\<close>
  | Log_ACPI_MSRS                \<comment> \<open>line 131\<close>
  | Log_temperature u64          \<comment> \<open>line 132\<close>
  | Log_MMX                      \<comment> \<open>line 137\<close>
  | Log_SSE2                     \<comment> \<open>line 142\<close>
  | Log_thermal_limit            \<comment> \<open>line 148\<close>
  | Log_AVX                      \<comment> \<open>line 153\<close>
  | Log_XSAVE                    \<comment> \<open>line 156\<close>
  | Log_RDRND                    \<comment> \<open>line 160\<close>
  | Log_max_function u32 u32     \<comment> \<open>line 164\<close>
  | Log_MSR                      \<comment> \<open>line 168\<close>
  | Log_PAE                      \<comment> \<open>line 171\<close>
  | Log_MCE                      \<comment> \<open>line 175\<close>
  | Log_APIC                     \<comment> \<open>line 179\<close>
  | Log_SYSCALL_K6               \<comment> \<open>line 184, through fb_printf\<close>
  | Log_SYSCALL                  \<comment> \<open>line 187\<close>
  | Log_AMD64                    \<comment> \<open>line 192\<close>
  | Log_SSE4a                    \<comment> \<open>line 196\<close>
  | Log_misaligned_SSE           \<comment> \<open>line 197\<close>
  | Log_MCA_overflow             \<comment> \<open>line 201\<close>
  | Log_SUCCOR                   \<comment> \<open>line 204\<close>
  | Log_temp_sensor              \<comment> \<open>line 207\<close>
  | Log_thermal_trip             \<comment> \<open>line 208\<close>
  | Log_HTC                      \<comment> \<open>line 210\<close>
  | Log_STC                      \<comment> \<open>line 213\<close>
  | Log_100MHz                   \<comment> \<open>line 216\<close>
  | Log_C0000000 u32 u32         \<comment> \<open>line 222\<close>
  | Log_manufacturer buffer      \<comment> \<open>line 109\<close>
  | Log_brand buffer             \<comment> \<open>line 117\<close>
  | Log_l2 u32 u32 u32           \<comment> \<open>line 72: lsize, assoc, cache\<close>
  | Log_amd_eggs buffer          \<comment> \<open>line 90\<close>
  | Log_cpu_model u32            \<comment> \<open>line 91\<close>
  | Log_cpu_family u32           \<comment> \<open>line 92\<close>

text \<open>
  What the module does to the outside, in program order: the instructions it issues
  and the lines it hands to the logging sink.
\<close>

datatype event =
    Cpuid u32                    \<comment> \<open>cpuid with this leaf in eax\<close>
  | Rdmsr u32                    \<comment> \<open>rdmsr of this register\<close>
  | Wrmsr u32 u32 u32            \<comment> \<open>wrmsr: register, lo, hi\<close>
  | Logged logline               \<comment> \<open>a LOG call\<close>
  | Printed logline              \<comment> \<open>an fb_printf call\<close>

text \<open>The five file-scope flags of cpu.c 15-19.\<close>

record features =
  acpi_msrs_support :: bool
  mmx_support :: bool
  sse2_support :: bool
  avx_support :: bool
  rdrnd_support :: bool

record kstate =
  feat :: features
  trace :: "event list"

text \<open>The state at module load: every flag is initialised to \<^verbatim>\<open>false\<close>.\<close>

definition features0 :: features where
  "features0 = \<lparr>acpi_msrs_support = False, mmx_support = False, sse2_support = False,
     avx_support = False, rdrnd_support = False\<rparr>"

definition boot_state :: kstate where
  "boot_state = \<lparr>feat = features0, trace = []\<rparr>"

section \<open>Primitives\<close>

definition emit :: "event \<Rightarrow> kstate \<Rightarrow> kstate" where
  "emit e s = s\<lparr>trace := trace s @ [e]\<rparr>"

text \<open>
  Modelled from the spec: \<^verbatim>\<open>LOG\<close> and \<^verbatim>\<open>fb_printf\<close> come from fb.h and tool.h, which
  are not among the sources; the spec calls them a formatted-logging sink that accepts a
  format template and its arguments and writes text to an output the environment
  controls. The model records the call and its arguments.
\<close>

definition LOG :: "logline \<Rightarrow> kstate \<Rightarrow> kstate" where
  "LOG m s = emit (Logged m) s"

definition fb_printf :: "logline \<Rightarrow> kstate \<Rightarrow> kstate" where
  "fb_printf m s = emit (Printed m) s"

text \<open>cpu.c 34-39.\<close>

definition cpuid :: "cpu \<Rightarrow> u32 \<Rightarrow> kstate \<Rightarrow> regs \<times> kstate" where
  "cpuid hw leaf s = (cpuid_insn hw leaf, emit (Cpuid leaf) s)"

text \<open>cpu.c 41-43.\<close>

definition msr_get :: "cpu \<Rightarrow> u32 \<Rightarrow> kstate \<Rightarrow> (u32 \<times> u32) \<times> kstate" where
  "msr_get hw msr s = (rdmsr_insn hw msr, emit (Rdmsr msr) s)"

text \<open>cpu.c 45-47. No function of the file calls it.\<close>

definition msr_set :: "u32 \<Rightarrow> u32 \<Rightarrow> u32 \<Rightarrow> kstate \<Rightarrow> kstate" where
  "msr_set msr lo hi s = emit (Wrmsr msr lo hi) s"

text \<open>
  The test \<^verbatim>\<open>(r >> n) & 1\<close> of the source, used as the condition of an
  \<^verbatim>\<open>if\<close>: true if the value is not zero.
\<close>

definition tst :: "u32 \<Rightarrow> nat \<Rightarrow> bool" where
  "tst r n = (drop_bit n r AND 1 \<noteq> 0)"

text \<open>\<^verbatim>\<open>if (c) { f }\<close> with no else branch.\<close>

definition cond :: "bool \<Rightarrow> (kstate \<Rightarrow> kstate) \<Rightarrow> kstate \<Rightarrow> kstate" where
  "cond c f s = (if c then f s else s)"

text \<open>
  The bytes of a \<^verbatim>\<open>uint32_t\<close> in memory. The module is x86 code (it issues
  \<^verbatim>\<open>cpuid\<close> and \<^verbatim>\<open>rdmsr\<close>), so the least significant byte comes first.
\<close>

definition le_bytes :: "u32 \<Rightarrow> u8 list" where
  "le_bytes w = [ucast w, ucast (drop_bit 8 w), ucast (drop_bit 16 w), ucast (drop_bit 24 w)]"

definition bytes_of :: "u32 list \<Rightarrow> u8 list" where
  "bytes_of ws = concat (map le_bytes ws)"

text \<open>
  Modelled from the spec: \<^verbatim>\<open>tool_memcpy\<close> is declared in tool.h, which is not
  among the sources; the spec calls it a raw memory-copy primitive that copies a fixed
  byte count between two buffers. \<open>src\<close> is the memory image of the source object.
\<close>

definition tool_memcpy :: "buffer \<Rightarrow> u8 list \<Rightarrow> nat \<Rightarrow> buffer" where
  "tool_memcpy dst src n = map Some (take n src) @ drop n dst"

text \<open>
  What a \<^verbatim>\<open>%s\<close> conversion reads from a buffer: the bytes before the first null
  byte. \<open>None\<close> cond the read reaches a cell that was never written, or the end of
  the buffer, before it finds one.
\<close>

fun c_str :: "buffer \<Rightarrow> u8 list option" where
  "c_str [] = None"
| "c_str (None # bs) = None"
| "c_str (Some b # bs) = (if b = 0 then Some [] else map_option ((#) b) (c_str bs))"

section \<open>The decoders\<close>

text \<open>cpu.c 49-61.\<close>

definition get_cpu_temperature :: "cpu \<Rightarrow> kstate \<Rightarrow> u64 \<times> kstate" where
  "get_cpu_temperature hw s =
     (let ((lo, hi), s1) = msr_get hw 0x19C s;
          temp = push_bit 32 (ucast hi :: u64) OR (ucast lo :: u64);
          temperature = drop_bit 16 temp div 256
      in (temperature, s1))"

text \<open>cpu.c 63-74.\<close>

definition l2_cache :: "cpu \<Rightarrow> kstate \<Rightarrow> kstate" where
  "l2_cache hw s =
     (let ((eax, ebx, ecx, edx), s1) = cpuid hw 0x80000006 s;
          lsize = ecx AND 0xFF;
          assoc = drop_bit 12 ecx AND 0x07;
          cache = drop_bit 16 ecx AND 0xFFFF
      in LOG (Log_l2 lsize assoc cache) s1)"

text \<open>
  cpu.c 76-93. The frame holds the locals as they are cond the function returns;
  \<^verbatim>\<open>do_amd\<close> itself returns nothing.
\<close>

record do_amd_frame =
  eggs_string :: buffer
  cpu_model :: u32
  cpu_family :: u32

definition do_amd_body :: "cpu \<Rightarrow> kstate \<Rightarrow> do_amd_frame \<times> kstate" where
  "do_amd_body hw s0 =
     (let eggs_string = replicate 13 None;
          ((e0, e1, e2, e3), s) = cpuid hw 0x8FFFFFFF s0;
          eggs = [e0, e1, e2, e3];
          eggs_string = tool_memcpy eggs_string (bytes_of eggs) 12;
          ((eax, ebx, ecx, edx), s) = cpuid hw 1 s;
          cpu_model = drop_bit 4 eax AND 0x0F;
          cpu_family = drop_bit 8 eax AND 0x0F;
          s = LOG (Log_amd_eggs eggs_string) s;
          s = LOG (Log_cpu_model cpu_model) s;
          s = LOG (Log_cpu_family cpu_family) s
      in (\<lparr>eggs_string = eggs_string, cpu_model = cpu_model, cpu_family = cpu_family\<rparr>, s))"

definition do_amd :: "cpu \<Rightarrow> kstate \<Rightarrow> kstate" where
  "do_amd hw s = snd (do_amd_body hw s)"

text \<open>
  cpu.c 95-121. \<^verbatim>\<open>cpuid(0, &manufacturer[3], &manufacturer[0], &manufacturer[2],
  &manufacturer[1])\<close> stores eax in slot 3, ebx in slot 0, ecx in slot 2 and edx in
  slot 1. The array \<^verbatim>\<open>brand\<close> exists only inside the branch that fills it.
\<close>

record brandname_frame =
  manufacturer_string :: buffer
  brand_string :: buffer

definition brandname_body :: "cpu \<Rightarrow> kstate \<Rightarrow> brandname_frame \<times> kstate" where
  "brandname_body hw s0 =
     (let brand_string = replicate 49 None;
          manufacturer_string = replicate 13 None;
          ((m3, m0, m2, m1), s) = cpuid hw 0 s0;
          manufacturer = [m0, m1, m2, m3];
          manufacturer_string = tool_memcpy manufacturer_string (bytes_of manufacturer) 12;
          brand_string = brand_string[48 := Some 0];
          manufacturer_string = manufacturer_string[12 := Some 0];
          s = LOG (Log_manufacturer manufacturer_string) s;
          ((eax, ebx, ecx, edx), s) = cpuid hw 0x80000000 s;
          (brand_string, s) =
            (if eax \<ge> 0x80000004 then
               (let ((b0, b1, b2, b3), s) = cpuid hw 0x80000002 s;
                    ((b4, b5, b6, b7), s) = cpuid hw 0x80000003 s;
                    ((b8, b9, b10, b11), s) = cpuid hw 0x80000004 s;
                    brand = [b0, b1, b2, b3, b4, b5, b6, b7, b8, b9, b10, b11];
                    brand_string = tool_memcpy brand_string (bytes_of brand) 48;
                    s = LOG (Log_brand brand_string) s
                in (brand_string, s))
             else (brand_string, s));
          s = cond (manufacturer ! 0 = 0x68747541) (do_amd hw) s
      in (\<lparr>manufacturer_string = manufacturer_string, brand_string = brand_string\<rparr>, s))"

definition brandname :: "cpu \<Rightarrow> kstate \<Rightarrow> kstate" where
  "brandname hw s = snd (brandname_body hw s)"

section \<open>The orchestrator\<close>

definition set_acpi_msrs_support :: "kstate \<Rightarrow> kstate" where
  "set_acpi_msrs_support s = s\<lparr>feat := (feat s)\<lparr>acpi_msrs_support := True\<rparr>\<rparr>"

definition set_mmx_support :: "kstate \<Rightarrow> kstate" where
  "set_mmx_support s = s\<lparr>feat := (feat s)\<lparr>mmx_support := True\<rparr>\<rparr>"

definition set_sse2_support :: "kstate \<Rightarrow> kstate" where
  "set_sse2_support s = s\<lparr>feat := (feat s)\<lparr>sse2_support := True\<rparr>\<rparr>"

definition set_avx_support :: "kstate \<Rightarrow> kstate" where
  "set_avx_support s = s\<lparr>feat := (feat s)\<lparr>avx_support := True\<rparr>\<rparr>"

definition set_rdrnd_support :: "kstate \<Rightarrow> kstate" where
  "set_rdrnd_support s = s\<lparr>feat := (feat s)\<lparr>rdrnd_support := True\<rparr>\<rparr>"

text \<open>
  cpu.c 129-133: the body of \<^verbatim>\<open>if ((edx >> 22) & 1)\<close>. The argument
  \<^verbatim>\<open>get_cpu_temperature( )\<close> is evaluated before the second \<^verbatim>\<open>LOG\<close> is called.
\<close>

definition thermal_block :: "cpu \<Rightarrow> kstate \<Rightarrow> kstate" where
  "thermal_block hw s0 =
     (let s = set_acpi_msrs_support s0;
          s = LOG Log_ACPI_MSRS s;
          (t, s) = get_cpu_temperature hw s
      in LOG (Log_temperature t) s)"

text \<open>
  cpu.c 123-226. The call \<^verbatim>\<open>sse_init( )\<close> of line 143 is commented out, and nothing
  else calls \<^verbatim>\<open>sse_init\<close> (cpu.c 21-32), so the control registers it would change are
  not part of the state.
\<close>

definition cpu_init :: "cpu \<Rightarrow> kstate \<Rightarrow> kstate" where
  "cpu_init hw s0 =
     (let ((eax, ebx, ecx, edx), s) = cpuid hw 1 s0;
          s = cond (tst edx 0) (LOG Log_FPU) s;
          s = cond (tst edx 22) (thermal_block hw) s;
          s = cond (tst edx 23) (\<lambda>s. LOG Log_MMX (set_mmx_support s)) s;
          s = cond (tst edx 25) (\<lambda>s. LOG Log_SSE2 (set_sse2_support s)) s;
          ((eax, ebx, ecx, edx), s) = cpuid hw 1 s;
          s = cond (tst edx 29) (LOG Log_thermal_limit) s;
          s = cond (tst ecx 28) (\<lambda>s. LOG Log_AVX (set_avx_support s)) s;
          s = cond (tst ecx 26) (LOG Log_XSAVE) s;
          s = cond (tst ecx 30) (\<lambda>s. LOG Log_RDRND (set_rdrnd_support s)) s;
          ((eax, ebx, ecx, edx), s) = cpuid hw 0x80000000 s;
          s = LOG (Log_max_function eax eax) s;
          ((eax, ebx, ecx, edx), s) = cpuid hw 0x80000001 s;
          s = cond (tst edx 5) (LOG Log_MSR) s;
          s = cond (tst edx 6) (LOG Log_PAE) s;
          s = cond (tst edx 7) (LOG Log_MCE) s;
          s = cond (tst edx 9) (LOG Log_APIC) s;
          s = cond (tst edx 10) (fb_printf Log_SYSCALL_K6) s;
          s = cond (tst edx 11) (LOG Log_SYSCALL) s;
          s = cond (tst edx 29) (LOG Log_AMD64) s;
          s = cond (tst ecx 6) (LOG Log_SSE4a) s;
          s = cond (tst ecx 7) (LOG Log_misaligned_SSE) s;
          ((eax, ebx, ecx, edx), s) = cpuid hw 0x80000007 s;
          s = cond (tst ebx 0) (LOG Log_MCA_overflow) s;
          s = cond (tst ebx 1) (LOG Log_SUCCOR) s;
          s = cond (tst edx 0) (LOG Log_temp_sensor) s;
          s = cond (tst edx 3) (LOG Log_thermal_trip) s;
          s = cond (tst edx 4) (LOG Log_HTC) s;
          s = cond (tst edx 5) (LOG Log_STC) s;
          s = cond (tst edx 6) (LOG Log_100MHz) s;
          ((eax, ebx, ecx, edx), s) = cpuid hw 0xC0000000 s;
          s = cond (eax > 0xC0000000) (LOG (Log_C0000000 eax eax)) s;
          s = brandname hw s
      in l2_cache hw s)"

section \<open>Observations\<close>

text \<open>The registers of a query result, by name.\<close>

definition eax_of :: "regs \<Rightarrow> u32" where
  "eax_of r = fst r"

definition ebx_of :: "regs \<Rightarrow> u32" where
  "ebx_of r = fst (snd r)"

definition ecx_of :: "regs \<Rightarrow> u32" where
  "ecx_of r = fst (snd (snd r))"

definition edx_of :: "regs \<Rightarrow> u32" where
  "edx_of r = snd (snd (snd r))"

text \<open>The events a function adds to the trace when it runs from state \<open>s\<close>.\<close>

definition emitted :: "(kstate \<Rightarrow> kstate) \<Rightarrow> kstate \<Rightarrow> event list" where
  "emitted f s = drop (length (trace s)) (trace (f s))"

text \<open>The event of a conditional statement: present when the condition holds.\<close>

definition opt :: "bool \<Rightarrow> 'a \<Rightarrow> 'a list" where
  "opt c x = (if c then [x] else [])"

fun is_msr_access :: "event \<Rightarrow> bool" where
  "is_msr_access (Rdmsr m) = True"
| "is_msr_access (Wrmsr m lo hi) = True"
| "is_msr_access e = False"

fun is_insn :: "event \<Rightarrow> bool" where
  "is_insn (Logged m) = False"
| "is_insn (Printed m) = False"
| "is_insn e = True"

fun is_brand_log :: "event \<Rightarrow> bool" where
  "is_brand_log (Logged (Log_brand b)) = True"
| "is_brand_log e = False"

fun is_amd_log :: "event \<Rightarrow> bool" where
  "is_amd_log (Logged (Log_amd_eggs b)) = True"
| "is_amd_log (Logged (Log_cpu_model m)) = True"
| "is_amd_log (Logged (Log_cpu_family f)) = True"
| "is_amd_log e = False"

text \<open>The three brand leaves, and the three extended leaves the orchestrator itself queries.\<close>

definition brand_leaves :: "event list" where
  "brand_leaves = [Cpuid 0x80000002, Cpuid 0x80000003, Cpuid 0x80000004]"

definition is_brand_query :: "event \<Rightarrow> bool" where
  "is_brand_query e = (e = Cpuid 0x80000002 \<or> e = Cpuid 0x80000003 \<or> e = Cpuid 0x80000004)"

definition is_ext_query :: "event \<Rightarrow> bool" where
  "is_ext_query e = (e = Cpuid 0x80000000 \<or> e = Cpuid 0x80000001 \<or> e = Cpuid 0x80000007)"

text \<open>The four registers of a query result as they lie in an array of four words.\<close>

definition regs_list :: "regs \<Rightarrow> u32 list" where
  "regs_list r = [eax_of r, ebx_of r, ecx_of r, edx_of r]"

subsection \<open>Some processors\<close>

definition no_regs :: regs where
  "no_regs = (0, 0, 0, 0)"

text \<open>Every leaf and every register reads zero.\<close>

definition cpu_blank :: cpu where
  "cpu_blank = \<lparr>cpuid_insn = (\<lambda>leaf. no_regs), rdmsr_insn = (\<lambda>msr. (0, 0))\<rparr>"

text \<open>Leaf 1 has edx = 1 (bit 0, the x87 FPU); everything else reads zero.\<close>

definition cpu_fpu_only :: cpu where
  "cpu_fpu_only = \<lparr>cpuid_insn = (\<lambda>leaf. if leaf = 1 then (0, 0, 0, 1) else no_regs),
     rdmsr_insn = (\<lambda>msr. (0, 0))\<rparr>"

text \<open>
  Leaf 1 has only bit 22 of edx; leaf 0x80000001 reads zero, so bit 5 of its edx
  (model-specific registers) is clear.
\<close>

definition cpu_thermal_no_msr :: cpu where
  "cpu_thermal_no_msr =
     \<lparr>cpuid_insn = (\<lambda>leaf. if leaf = 1 then (0, 0, 0, 0x00400000) else no_regs),
      rdmsr_insn = (\<lambda>msr. (0, 0))\<rparr>"

text \<open>
  Leaf 0x80000000 reports 0x80000000 as the highest extended leaf; leaf 0x80000001
  answers with bit 29 of edx and leaf 0x80000007 with bit 0 of edx all the same.
\<close>

definition cpu_no_ext :: cpu where
  "cpu_no_ext =
     \<lparr>cpuid_insn = (\<lambda>leaf.
        if leaf = 0x80000000 then (0x80000000, 0, 0, 0)
        else if leaf = 0x80000001 then (0, 0, 0, 0x20000000)
        else if leaf = 0x80000007 then (0, 0, 0, 1)
        else no_regs),
      rdmsr_insn = (\<lambda>msr. (0, 0))\<rparr>"

text \<open>The thermal status register 0x19C reads lo = 0x25000000, hi = 0.\<close>

definition cpu_temp37 :: cpu where
  "cpu_temp37 = \<lparr>cpuid_insn = (\<lambda>leaf. no_regs),
     rdmsr_insn = (\<lambda>msr. if msr = 0x19C then (0x25000000, 0) else (0, 0))\<rparr>"

text \<open>Leaf 0x80000006 has ecx = 0x02002040.\<close>

definition cpu_l2 :: cpu where
  "cpu_l2 = \<lparr>cpuid_insn = (\<lambda>leaf. if leaf = 0x80000006 then (0, 0, 0x02002040, 0) else no_regs),
     rdmsr_insn = (\<lambda>msr. (0, 0))\<rparr>"

text \<open>
  Leaf 0 of an Intel processor: eax = 0x0D, ebx = "Genu", ecx = "ntel", edx = "ineI".
\<close>

definition cpu_genuine_intel :: cpu where
  "cpu_genuine_intel =
     \<lparr>cpuid_insn = (\<lambda>leaf.
        if leaf = 0 then (0x0000000D, 0x756E6547, 0x6C65746E, 0x49656E69) else no_regs),
      rdmsr_insn = (\<lambda>msr. (0, 0))\<rparr>"

text \<open>
  An AMD K8: leaf 0 has ebx = "Auth", ecx = "cAMD", edx = "enti"; leaf 1 has
  eax = 0x00000F48; leaf 0x8FFFFFFF answers "IT'S HAMMER TIME" in eax, ebx, ecx, edx;
  the highest extended leaf is 0x80000018 and the brand leaves begin "AMD Athl".
\<close>

definition cpu_amd_k8 :: cpu where
  "cpu_amd_k8 =
     \<lparr>cpuid_insn = (\<lambda>leaf.
        if leaf = 0 then (0x00000001, 0x68747541, 0x444D4163, 0x69746E65)
        else if leaf = 1 then (0x00000F48, 0, 0, 0)
        else if leaf = 0x80000000 then (0x80000018, 0x68747541, 0x444D4163, 0x69746E65)
        else if leaf = 0x80000002 then (0x20444D41, 0x6C687441, 0x74286E6F, 0x3620296D)
        else if leaf = 0x8FFFFFFF then (0x53275449, 0x4D414820, 0x2052454D, 0x454D4954)
        else no_regs),
      rdmsr_insn = (\<lambda>msr. (0, 0))\<rparr>"

section \<open>Stepping through the code\<close>

lemma regs_of [simp]:
  "eax_of (a, b, c, d) = a" "ebx_of (a, b, c, d) = b"
  "ecx_of (a, b, c, d) = c" "edx_of (a, b, c, d) = d"
  by (simp_all add: eax_of_def ebx_of_def ecx_of_def edx_of_def)

lemma tst_bit: "tst r n = bit r n"
  by (simp add: tst_def bit_iff_odd_drop_bit and_one_eq mod_2_eq_odd)

lemma filter_opt [simp]: "filter P (opt c x) = opt (c \<and> P x) x"
  by (cases c) (simp_all add: opt_def)

lemma set_opt [simp]: "set (opt c x) = (if c then {x} else {})"
  by (cases c) (simp_all add: opt_def)

lemma opt_simps [simp]: "opt False x = []" "opt True x = [x]"
  by (simp_all add: opt_def)

lemma feat_emit [simp]: "feat (emit e s) = feat s"
  by (simp add: emit_def)

lemma trace_emit [simp]: "trace (emit e s) = trace s @ [e]"
  by (simp add: emit_def)

lemma feat_LOG [simp]: "feat (LOG m s) = feat s"
  by (simp add: LOG_def)

lemma trace_LOG [simp]: "trace (LOG m s) = trace s @ [Logged m]"
  by (simp add: LOG_def)

lemma feat_fb_printf [simp]: "feat (fb_printf m s) = feat s"
  by (simp add: fb_printf_def)

lemma trace_fb_printf [simp]: "trace (fb_printf m s) = trace s @ [Printed m]"
  by (simp add: fb_printf_def)

lemma trace_cond_LOG [simp]: "trace (cond c (LOG m) s) = trace s @ opt c (Logged m)"
  by (simp add: cond_def opt_def)

lemma trace_cond_fb_printf [simp]:
  "trace (cond c (fb_printf m) s) = trace s @ opt c (Printed m)"
  by (simp add: cond_def opt_def)

lemma feat_cond_LOG [simp]: "feat (cond c (LOG m) s) = feat s"
  by (simp add: cond_def)

lemma feat_cond_fb_printf [simp]: "feat (cond c (fb_printf m) s) = feat s"
  by (simp add: cond_def)

lemmas setters = set_acpi_msrs_support_def set_mmx_support_def set_sse2_support_def
  set_avx_support_def set_rdrnd_support_def

lemma trace_set [simp]:
  "trace (set_acpi_msrs_support s) = trace s"
  "trace (set_mmx_support s) = trace s"
  "trace (set_sse2_support s) = trace s"
  "trace (set_avx_support s) = trace s"
  "trace (set_rdrnd_support s) = trace s"
  by (simp_all add: setters)

lemma feat_set [simp]:
  "feat (set_acpi_msrs_support s) = (feat s)\<lparr>acpi_msrs_support := True\<rparr>"
  "feat (set_mmx_support s) = (feat s)\<lparr>mmx_support := True\<rparr>"
  "feat (set_sse2_support s) = (feat s)\<lparr>sse2_support := True\<rparr>"
  "feat (set_avx_support s) = (feat s)\<lparr>avx_support := True\<rparr>"
  "feat (set_rdrnd_support s) = (feat s)\<lparr>rdrnd_support := True\<rparr>"
  by (simp_all add: setters)

lemma trace_cond_set [simp]:
  "trace (cond c (\<lambda>s. LOG m (set_mmx_support s)) s) = trace s @ opt c (Logged m)"
  "trace (cond c (\<lambda>s. LOG m (set_sse2_support s)) s) = trace s @ opt c (Logged m)"
  "trace (cond c (\<lambda>s. LOG m (set_avx_support s)) s) = trace s @ opt c (Logged m)"
  "trace (cond c (\<lambda>s. LOG m (set_rdrnd_support s)) s) = trace s @ opt c (Logged m)"
  by (simp_all add: cond_def opt_def)

lemma feat_cond_set [simp]:
  "feat (cond c (\<lambda>s. LOG m (set_mmx_support s)) s)
     = (feat s)\<lparr>mmx_support := mmx_support (feat s) \<or> c\<rparr>"
  "feat (cond c (\<lambda>s. LOG m (set_sse2_support s)) s)
     = (feat s)\<lparr>sse2_support := sse2_support (feat s) \<or> c\<rparr>"
  "feat (cond c (\<lambda>s. LOG m (set_avx_support s)) s)
     = (feat s)\<lparr>avx_support := avx_support (feat s) \<or> c\<rparr>"
  "feat (cond c (\<lambda>s. LOG m (set_rdrnd_support s)) s)
     = (feat s)\<lparr>rdrnd_support := rdrnd_support (feat s) \<or> c\<rparr>"
  by (simp_all add: cond_def)

subsection \<open>Word arithmetic\<close>

lemma unat_u32_less: "unat (w::u32) < 2 ^ 32"
  using unsigned_less [of w, where 'a = nat] by simp

lemma unat_ucast_u32_u64: "unat (ucast (w::u32) :: u64) = unat w"
proof -
  have "unat w < 2 ^ 64" using unat_u32_less [of w] by simp
  then show ?thesis by (simp add: unsigned_ucast_eq take_bit_nat_eq_self)
qed

lemma unat_combine:
  "unat (push_bit 32 (ucast (hi::u32) :: u64) OR (ucast (lo::u32) :: u64))
     = unat hi * 2 ^ 32 + unat lo"
proof -
  have hi64: "unat hi * 2 ^ 32 < 2 ^ 64" using unat_u32_less [of hi] by simp
  have p: "unat (push_bit 32 (ucast hi :: u64)) = unat hi * 2 ^ 32"
    using hi64 by (simp add: push_bit_eq_mult unat_word_ariths unat_ucast_u32_u64)
  have disj: "push_bit 32 (unat hi) AND unat lo = 0"
    by (rule bit_eqI) (auto simp add: bit_simps dest: bit_imp_le_length)
  have "unat (push_bit 32 (ucast hi :: u64) OR (ucast lo :: u64)) = unat hi * 2 ^ 32 OR unat lo"
    by (simp only: unsigned_or_eq p unat_ucast_u32_u64)
  also have "\<dots> = unat hi * 2 ^ 32 + unat lo"
    using disjunctive_add_eq_or [OF disj] by (simp add: push_bit_eq_mult)
  finally show ?thesis .
qed

lemma unat_temperature:
  "unat (drop_bit 16 (push_bit 32 (ucast (hi::u32) :: u64) OR (ucast (lo::u32) :: u64)) div 256)
     = (unat hi * 2 ^ 32 + unat lo) div 2 ^ 16 div 256"
  by (simp only: unat_div unat_drop_bit_eq unat_combine drop_bit_eq_div) simp

lemma unat_field_0_8: "unat ((w::u32) AND 0xFF) = unat w mod 2 ^ 8"
proof -
  have m: "(0xFF::u32) = mask 8" by (simp add: mask_eq_exp_minus_1)
  show ?thesis
    unfolding m by (simp add: unat_mod take_bit_eq_mod flip: take_bit_eq_mask)
qed

lemma unat_field_12_3: "unat (drop_bit 12 (w::u32) AND 0x07) = unat w div 2 ^ 12 mod 2 ^ 3"
proof -
  have m: "(0x07::u32) = mask 3" by (simp add: mask_eq_exp_minus_1)
  show ?thesis
    unfolding m
    by (simp add: unat_mod unat_div unat_drop_bit_eq drop_bit_eq_div take_bit_eq_mod
        flip: take_bit_eq_mask)
qed

lemma unat_field_16_16: "unat (drop_bit 16 (w::u32) AND 0xFFFF) = unat w div 2 ^ 16"
proof -
  have m: "(0xFFFF::u32) = mask 16" by (simp add: mask_eq_exp_minus_1)
  have "unat w div 2 ^ 16 < 2 ^ 16"
    using unat_u32_less [of w] by (simp add: less_mult_imp_div_less)
  then show ?thesis
    unfolding m
    by (simp add: unat_mod unat_div unat_drop_bit_eq drop_bit_eq_div take_bit_eq_mod
        flip: take_bit_eq_mask)
qed

lemma unat_nibble:
  "unat (drop_bit 4 (w::u32) AND 0x0F) = unat w div 2 ^ 4 mod 2 ^ 4"
  "unat (drop_bit 8 (w::u32) AND 0x0F) = unat w div 2 ^ 8 mod 2 ^ 4"
proof -
  have m: "(0x0F::u32) = mask 4" by (simp add: mask_eq_exp_minus_1)
  show "unat (drop_bit 4 w AND 0x0F) = unat w div 2 ^ 4 mod 2 ^ 4"
    unfolding m
    by (simp add: unat_mod unat_div unat_drop_bit_eq drop_bit_eq_div take_bit_eq_mod
        flip: take_bit_eq_mask)
  show "unat (drop_bit 8 w AND 0x0F) = unat w div 2 ^ 8 mod 2 ^ 4"
    unfolding m
    by (simp add: unat_mod unat_div unat_drop_bit_eq drop_bit_eq_div take_bit_eq_mod
        flip: take_bit_eq_mask)
qed

subsection \<open>The temperature reader and the cache decoder\<close>

lemma get_cpu_temperature_eq:
  "get_cpu_temperature hw s =
     (drop_bit 16 (push_bit 32 (ucast (snd (rdmsr_insn hw 0x19C)) :: u64)
        OR ucast (fst (rdmsr_insn hw 0x19C))) div 256, emit (Rdmsr 0x19C) s)"
  by (simp add: get_cpu_temperature_def msr_get_def Let_def split_beta)

lemma l2_cache_eq:
  "cpuid_insn hw 0x80000006 = (a, b, c, d) \<Longrightarrow>
   l2_cache hw s = LOG (Log_l2 (c AND 0xFF) (drop_bit 12 c AND 0x07) (drop_bit 16 c AND 0xFFFF))
     (emit (Cpuid 0x80000006) s)"
  by (simp add: l2_cache_def cpuid_def Let_def)

lemma feat_l2_cache [simp]: "feat (l2_cache hw s) = feat s"
  by (cases "cpuid_insn hw 0x80000006" rule: prod_cases4) (simp add: l2_cache_eq)

lemma trace_l2_cache:
  "trace (l2_cache hw s) = trace s @ [Cpuid 0x80000006,
     Logged (Log_l2 (ecx_of (cpuid_insn hw 0x80000006) AND 0xFF)
       (drop_bit 12 (ecx_of (cpuid_insn hw 0x80000006)) AND 0x07)
       (drop_bit 16 (ecx_of (cpuid_insn hw 0x80000006)) AND 0xFFFF))]"
  by (cases "cpuid_insn hw 0x80000006" rule: prod_cases4) (simp add: l2_cache_eq)

subsection \<open>The thermal block\<close>

lemma trace_thermal_block:
  "trace (thermal_block hw s) = trace s @
     [Logged Log_ACPI_MSRS, Rdmsr 0x19C,
      Logged (Log_temperature (fst (get_cpu_temperature hw boot_state)))]"
  by (simp add: thermal_block_def get_cpu_temperature_eq Let_def)

lemma feat_thermal_block:
  "feat (thermal_block hw s) = (feat s)\<lparr>acpi_msrs_support := True\<rparr>"
  by (simp add: thermal_block_def get_cpu_temperature_eq Let_def)

lemma trace_cond_thermal [simp]:
  "trace (cond c (thermal_block hw) s) = trace s @
     (if c then [Logged Log_ACPI_MSRS, Rdmsr 0x19C,
      Logged (Log_temperature (fst (get_cpu_temperature hw boot_state)))] else [])"
  by (simp add: cond_def trace_thermal_block)

lemma feat_cond_thermal [simp]:
  "feat (cond c (thermal_block hw) s)
     = (feat s)\<lparr>acpi_msrs_support := acpi_msrs_support (feat s) \<or> c\<rparr>"
  by (simp add: cond_def feat_thermal_block)

subsection \<open>The string buffers\<close>

lemma memcpy_vendor:
  "(tool_memcpy (replicate 13 None) (bytes_of [m0, m1, m2, m3]) 12)[12 := Some 0]
     = map Some (le_bytes m0 @ le_bytes m1 @ le_bytes m2) @ [Some 0]"
  by (simp add: tool_memcpy_def bytes_of_def le_bytes_def)

lemma memcpy_eggs:
  "tool_memcpy (replicate 13 None) (bytes_of [e0, e1, e2, e3]) 12
     = map Some (le_bytes e0 @ le_bytes e1 @ le_bytes e2) @ [None]"
  by (simp add: tool_memcpy_def bytes_of_def le_bytes_def)

lemma brand_unwritten:
  "(replicate 49 None)[48 := Some (0::u8)] = replicate 48 None @ [Some 0]"
  by (simp add: list_eq_iff_nth_eq nth_list_update nth_append)

lemma memcpy_brand:
  "tool_memcpy (replicate 48 None @ [Some 0])
      (bytes_of [b0, b1, b2, b3, b4, b5, b6, b7, b8, b9, b10, b11]) 48
     = map Some (bytes_of [b0, b1, b2, b3, b4, b5, b6, b7, b8, b9, b10, b11]) @ [Some 0]"
  by (simp add: tool_memcpy_def bytes_of_def le_bytes_def)

lemma length_le_bytes [simp]: "length (le_bytes w) = 4"
  by (simp add: le_bytes_def)

lemma c_str_terminated: "c_str (map Some bs @ [Some 0]) \<noteq> None"
  by (induction bs) simp_all

lemma c_str_unterminated: "0 \<notin> set bs \<Longrightarrow> c_str (map Some bs @ [None]) = None"
  by (induction bs) simp_all

text \<open>A word is determined by its four bytes.\<close>

lemma word_of_le_bytes:
  "(w::u32) = ucast (ucast w :: u8) OR push_bit 8 (ucast (ucast (drop_bit 8 w) :: u8))
     OR push_bit 16 (ucast (ucast (drop_bit 16 w) :: u8))
     OR push_bit 24 (ucast (ucast (drop_bit 24 w) :: u8))"
proof (rule bit_eqI)
  fix n :: nat
  assume "possible_bit TYPE(u32) n"
  have rejoin: "k + (n - k) = n" if "\<not> n < k" for k
    using that by simp
  consider "n < 8" | "8 \<le> n" "n < 16" | "16 \<le> n" "n < 24" | "24 \<le> n"
    by linarith
  then show "bit w n = bit (ucast (ucast w :: u8) OR push_bit 8 (ucast (ucast (drop_bit 8 w) :: u8))
     OR push_bit 16 (ucast (ucast (drop_bit 16 w) :: u8))
     OR push_bit 24 (ucast (ucast (drop_bit 24 w) :: u8)) :: u32) n"
    by cases (auto simp add: bit_simps rejoin dest: bit_imp_le_length)
qed

lemma le_bytes_inj: "le_bytes v = le_bytes w \<Longrightarrow> v = w"
proof -
  assume "le_bytes v = le_bytes w"
  then have "(ucast v :: u8) = ucast w" "(ucast (drop_bit 8 v) :: u8) = ucast (drop_bit 8 w)"
    "(ucast (drop_bit 16 v) :: u8) = ucast (drop_bit 16 w)"
    "(ucast (drop_bit 24 v) :: u8) = ucast (drop_bit 24 w)"
    by (simp_all add: le_bytes_def)
  then show "v = w"
    by (subst word_of_le_bytes [of v], subst word_of_le_bytes [of w]) simp
qed

lemma le_bytes_Auth: "le_bytes 0x68747541 = [0x41, 0x75, 0x74, 0x68]"
  by (simp add: le_bytes_def)

lemma signature_bytes:
  "(take 4 (map Some (le_bytes m0 @ le_bytes m1 @ le_bytes m2) @ [Some 0])
      = map Some [0x41, 0x75, 0x74, 0x68]) = (m0 = 0x68747541)"
proof -
  have "take 4 (map Some (le_bytes m0 @ le_bytes m1 @ le_bytes m2) @ [Some 0])
      = map Some (le_bytes m0)"
    by simp
  moreover have "(map Some (le_bytes m0) = map Some [0x41, 0x75, 0x74, 0x68])
      = (le_bytes m0 = le_bytes 0x68747541)"
    unfolding le_bytes_Auth by (rule inj_map_eq_map) simp
  ultimately show ?thesis
    using le_bytes_inj [of m0 "0x68747541"] by auto
qed

subsection \<open>The vendor-specific query and the vendor/brand decoder\<close>

lemma do_amd_body_eq:
  "cpuid_insn hw 0x8FFFFFFF = (e0, e1, e2, e3) \<Longrightarrow> cpuid_insn hw 1 = (a, b, c, d) \<Longrightarrow>
   do_amd_body hw s =
     (\<lparr>eggs_string = map Some (le_bytes e0 @ le_bytes e1 @ le_bytes e2) @ [None],
       cpu_model = drop_bit 4 a AND 0x0F, cpu_family = drop_bit 8 a AND 0x0F\<rparr>,
      s\<lparr>trace := trace s @ [Cpuid 0x8FFFFFFF, Cpuid 1,
        Logged (Log_amd_eggs (map Some (le_bytes e0 @ le_bytes e1 @ le_bytes e2) @ [None])),
        Logged (Log_cpu_model (drop_bit 4 a AND 0x0F)),
        Logged (Log_cpu_family (drop_bit 8 a AND 0x0F))]\<rparr>)"
  by (simp add: do_amd_body_def cpuid_def Let_def LOG_def emit_def memcpy_eggs)

lemma feat_do_amd [simp]: "feat (do_amd hw s) = feat s"
  by (cases "cpuid_insn hw 0x8FFFFFFF" rule: prod_cases4; cases "cpuid_insn hw 1" rule: prod_cases4)
    (simp add: do_amd_def do_amd_body_eq)

lemma trace_do_amd:
  "cpuid_insn hw 0x8FFFFFFF = (e0, e1, e2, e3) \<Longrightarrow> cpuid_insn hw 1 = (a, b, c, d) \<Longrightarrow>
   trace (do_amd hw s) = trace s @ [Cpuid 0x8FFFFFFF, Cpuid 1,
        Logged (Log_amd_eggs (map Some (le_bytes e0 @ le_bytes e1 @ le_bytes e2) @ [None])),
        Logged (Log_cpu_model (drop_bit 4 a AND 0x0F)),
        Logged (Log_cpu_family (drop_bit 8 a AND 0x0F))]"
  by (simp add: do_amd_def do_amd_body_eq)

lemma brandname_body_eq:
  assumes "cpuid_insn hw 0 = (m3, m0, m2, m1)"
      and "cpuid_insn hw 0x80000000 = (xa, xb, xc, xd)"
      and "cpuid_insn hw 0x80000002 = (b0, b1, b2, b3)"
      and "cpuid_insn hw 0x80000003 = (b4, b5, b6, b7)"
      and "cpuid_insn hw 0x80000004 = (b8, b9, b10, b11)"
  shows "brandname_body hw s =
    (\<lparr>manufacturer_string = map Some (le_bytes m0 @ le_bytes m1 @ le_bytes m2) @ [Some 0],
      brand_string = (if xa \<ge> 0x80000004
         then map Some (bytes_of [b0, b1, b2, b3, b4, b5, b6, b7, b8, b9, b10, b11]) @ [Some 0]
         else replicate 48 None @ [Some 0])\<rparr>,
     cond (m0 = 0x68747541) (do_amd hw)
       (s\<lparr>trace := trace s @
          [Cpuid 0,
           Logged (Log_manufacturer (map Some (le_bytes m0 @ le_bytes m1 @ le_bytes m2) @ [Some 0])),
           Cpuid 0x80000000] @
          (if xa \<ge> 0x80000004
           then [Cpuid 0x80000002, Cpuid 0x80000003, Cpuid 0x80000004,
                 Logged (Log_brand
                   (map Some (bytes_of [b0, b1, b2, b3, b4, b5, b6, b7, b8, b9, b10, b11])
                      @ [Some 0]))]
           else [])\<rparr>))"
  unfolding brandname_body_def
  by (simp add: assms cpuid_def Let_def LOG_def emit_def memcpy_vendor memcpy_brand brand_unwritten)

lemma feat_brandname [simp]: "feat (brandname hw s) = feat s"
  by (cases "cpuid_insn hw 0" rule: prod_cases4; cases "cpuid_insn hw 0x80000000" rule: prod_cases4;
      cases "cpuid_insn hw 0x80000002" rule: prod_cases4;
      cases "cpuid_insn hw 0x80000003" rule: prod_cases4;
      cases "cpuid_insn hw 0x80000004" rule: prod_cases4)
    (simp add: brandname_def brandname_body_eq cond_def)

lemma trace_brandname:
  assumes "cpuid_insn hw 0 = (m3, m0, m2, m1)"
      and "cpuid_insn hw 0x80000000 = (xa, xb, xc, xd)"
      and "cpuid_insn hw 0x80000002 = (b0, b1, b2, b3)"
      and "cpuid_insn hw 0x80000003 = (b4, b5, b6, b7)"
      and "cpuid_insn hw 0x80000004 = (b8, b9, b10, b11)"
      and "cpuid_insn hw 0x8FFFFFFF = (e0, e1, e2, e3)"
      and "cpuid_insn hw 1 = (a, b, c, d)"
  shows "trace (brandname hw s) = trace s @
          [Cpuid 0,
           Logged (Log_manufacturer (map Some (le_bytes m0 @ le_bytes m1 @ le_bytes m2) @ [Some 0])),
           Cpuid 0x80000000] @
          (if xa \<ge> 0x80000004
           then [Cpuid 0x80000002, Cpuid 0x80000003, Cpuid 0x80000004,
                 Logged (Log_brand
                   (map Some (bytes_of [b0, b1, b2, b3, b4, b5, b6, b7, b8, b9, b10, b11])
                      @ [Some 0]))]
           else []) @
          (if m0 = 0x68747541
           then [Cpuid 0x8FFFFFFF, Cpuid 1,
                 Logged (Log_amd_eggs (map Some (le_bytes e0 @ le_bytes e1 @ le_bytes e2) @ [None])),
                 Logged (Log_cpu_model (drop_bit 4 a AND 0x0F)),
                 Logged (Log_cpu_family (drop_bit 8 a AND 0x0F))]
           else [])"
  by (simp add: brandname_def brandname_body_eq [OF assms(1-5)] cond_def
      trace_do_amd [OF assms(6,7)])

text \<open>What \<^verbatim>\<open>brandname\<close> and \<^verbatim>\<open>l2_cache\<close> emit does not depend on the state they start from.\<close>

lemma trace_brandname_emitted:
  "trace (brandname hw s) = trace s @ emitted (brandname hw) boot_state"
  by (cases "cpuid_insn hw 0" rule: prod_cases4; cases "cpuid_insn hw 0x80000000" rule: prod_cases4;
      cases "cpuid_insn hw 0x80000002" rule: prod_cases4;
      cases "cpuid_insn hw 0x80000003" rule: prod_cases4;
      cases "cpuid_insn hw 0x80000004" rule: prod_cases4;
      cases "cpuid_insn hw 0x8FFFFFFF" rule: prod_cases4;
      cases "cpuid_insn hw 1" rule: prod_cases4)
    (simp add: emitted_def trace_brandname)

lemma trace_l2_cache_emitted:
  "trace (l2_cache hw s) = trace s @ emitted (l2_cache hw) boot_state"
  by (simp add: emitted_def trace_l2_cache)

subsection \<open>The orchestrator\<close>

lemma feat_cpu_init:
  "feat (cpu_init hw s) = (feat s)\<lparr>
     acpi_msrs_support := acpi_msrs_support (feat s) \<or> tst (edx_of (cpuid_insn hw 1)) 22,
     mmx_support := mmx_support (feat s) \<or> tst (edx_of (cpuid_insn hw 1)) 23,
     sse2_support := sse2_support (feat s) \<or> tst (edx_of (cpuid_insn hw 1)) 25,
     avx_support := avx_support (feat s) \<or> tst (ecx_of (cpuid_insn hw 1)) 28,
     rdrnd_support := rdrnd_support (feat s) \<or> tst (ecx_of (cpuid_insn hw 1)) 30\<rparr>"
  by (cases "cpuid_insn hw 1" rule: prod_cases4; cases "cpuid_insn hw 0x80000000" rule: prod_cases4;
      cases "cpuid_insn hw 0x80000001" rule: prod_cases4;
      cases "cpuid_insn hw 0x80000007" rule: prod_cases4;
      cases "cpuid_insn hw 0xC0000000" rule: prod_cases4)
    (simp add: cpu_init_def cpuid_def Let_def)

lemma trace_cpu_init:
  fixes hw :: cpu
  defines "r1 \<equiv> cpuid_insn hw 1"
      and "x0 \<equiv> cpuid_insn hw 0x80000000"
      and "x1 \<equiv> cpuid_insn hw 0x80000001"
      and "x7 \<equiv> cpuid_insn hw 0x80000007"
      and "c0 \<equiv> cpuid_insn hw 0xC0000000"
  shows "trace (cpu_init hw s) = trace s @
     [Cpuid 1] @
     opt (tst (edx_of r1) 0) (Logged Log_FPU) @
     (if tst (edx_of r1) 22
      then [Logged Log_ACPI_MSRS, Rdmsr 0x19C,
            Logged (Log_temperature (fst (get_cpu_temperature hw boot_state)))]
      else []) @
     opt (tst (edx_of r1) 23) (Logged Log_MMX) @
     opt (tst (edx_of r1) 25) (Logged Log_SSE2) @
     [Cpuid 1] @
     opt (tst (edx_of r1) 29) (Logged Log_thermal_limit) @
     opt (tst (ecx_of r1) 28) (Logged Log_AVX) @
     opt (tst (ecx_of r1) 26) (Logged Log_XSAVE) @
     opt (tst (ecx_of r1) 30) (Logged Log_RDRND) @
     [Cpuid 0x80000000, Logged (Log_max_function (eax_of x0) (eax_of x0)), Cpuid 0x80000001] @
     opt (tst (edx_of x1) 5) (Logged Log_MSR) @
     opt (tst (edx_of x1) 6) (Logged Log_PAE) @
     opt (tst (edx_of x1) 7) (Logged Log_MCE) @
     opt (tst (edx_of x1) 9) (Logged Log_APIC) @
     opt (tst (edx_of x1) 10) (Printed Log_SYSCALL_K6) @
     opt (tst (edx_of x1) 11) (Logged Log_SYSCALL) @
     opt (tst (edx_of x1) 29) (Logged Log_AMD64) @
     opt (tst (ecx_of x1) 6) (Logged Log_SSE4a) @
     opt (tst (ecx_of x1) 7) (Logged Log_misaligned_SSE) @
     [Cpuid 0x80000007] @
     opt (tst (ebx_of x7) 0) (Logged Log_MCA_overflow) @
     opt (tst (ebx_of x7) 1) (Logged Log_SUCCOR) @
     opt (tst (edx_of x7) 0) (Logged Log_temp_sensor) @
     opt (tst (edx_of x7) 3) (Logged Log_thermal_trip) @
     opt (tst (edx_of x7) 4) (Logged Log_HTC) @
     opt (tst (edx_of x7) 5) (Logged Log_STC) @
     opt (tst (edx_of x7) 6) (Logged Log_100MHz) @
     [Cpuid 0xC0000000] @
     opt (eax_of c0 > 0xC0000000) (Logged (Log_C0000000 (eax_of c0) (eax_of c0))) @
     emitted (brandname hw) boot_state @
     emitted (l2_cache hw) boot_state"
proof -
  obtain a1 b1 c1 d1 where r1: "cpuid_insn hw 1 = (a1, b1, c1, d1)" by (rule prod_cases4)
  obtain a2 b2 c2 d2 where r2: "cpuid_insn hw 0x80000000 = (a2, b2, c2, d2)" by (rule prod_cases4)
  obtain a3 b3 c3 d3 where r3: "cpuid_insn hw 0x80000001 = (a3, b3, c3, d3)" by (rule prod_cases4)
  obtain a4 b4 c4 d4 where r4: "cpuid_insn hw 0x80000007 = (a4, b4, c4, d4)" by (rule prod_cases4)
  obtain a5 b5 c5 d5 where r5: "cpuid_insn hw 0xC0000000 = (a5, b5, c5, d5)" by (rule prod_cases4)
  show ?thesis
    unfolding assms
    by (simp add: cpu_init_def cpuid_def Let_def r1 r2 r3 r4 r5
        trace_brandname_emitted trace_l2_cache_emitted)
qed

lemma brandname_frame:
  "fst (brandname_body hw s) =
    \<lparr>manufacturer_string =
       map Some (le_bytes (ebx_of (cpuid_insn hw 0)) @ le_bytes (edx_of (cpuid_insn hw 0))
         @ le_bytes (ecx_of (cpuid_insn hw 0))) @ [Some 0],
     brand_string = (if eax_of (cpuid_insn hw 0x80000000) \<ge> 0x80000004
       then map Some (bytes_of (regs_list (cpuid_insn hw 0x80000002)
              @ regs_list (cpuid_insn hw 0x80000003) @ regs_list (cpuid_insn hw 0x80000004)))
            @ [Some 0]
       else replicate 48 None @ [Some 0])\<rparr>"
  by (cases "cpuid_insn hw 0" rule: prod_cases4; cases "cpuid_insn hw 0x80000000" rule: prod_cases4;
      cases "cpuid_insn hw 0x80000002" rule: prod_cases4;
      cases "cpuid_insn hw 0x80000003" rule: prod_cases4;
      cases "cpuid_insn hw 0x80000004" rule: prod_cases4)
    (simp add: brandname_body_eq regs_list_def)

lemma do_amd_frame:
  "fst (do_amd_body hw s) =
    \<lparr>eggs_string =
       map Some (le_bytes (eax_of (cpuid_insn hw 0x8FFFFFFF)) @ le_bytes (ebx_of (cpuid_insn hw 0x8FFFFFFF))
         @ le_bytes (ecx_of (cpuid_insn hw 0x8FFFFFFF))) @ [None],
     cpu_model = drop_bit 4 (eax_of (cpuid_insn hw 1)) AND 0x0F,
     cpu_family = drop_bit 8 (eax_of (cpuid_insn hw 1)) AND 0x0F\<rparr>"
  by (cases "cpuid_insn hw 0x8FFFFFFF" rule: prod_cases4; cases "cpuid_insn hw 1" rule: prod_cases4)
    (simp add: do_amd_body_eq)

lemma emitted_do_amd:
  "emitted (do_amd hw) s = [Cpuid 0x8FFFFFFF, Cpuid 1,
     Logged (Log_amd_eggs (eggs_string (fst (do_amd_body hw s)))),
     Logged (Log_cpu_model (cpu_model (fst (do_amd_body hw s)))),
     Logged (Log_cpu_family (cpu_family (fst (do_amd_body hw s))))]"
  by (cases "cpuid_insn hw 0x8FFFFFFF" rule: prod_cases4; cases "cpuid_insn hw 1" rule: prod_cases4)
    (simp add: emitted_def trace_do_amd do_amd_frame)

lemma emitted_brandname:
  "emitted (brandname hw) s =
     [Cpuid 0, Logged (Log_manufacturer (manufacturer_string (fst (brandname_body hw s)))),
      Cpuid 0x80000000] @
     (if eax_of (cpuid_insn hw 0x80000000) \<ge> 0x80000004
      then brand_leaves @ [Logged (Log_brand (brand_string (fst (brandname_body hw s))))]
      else []) @
     (if ebx_of (cpuid_insn hw 0) = 0x68747541 then emitted (do_amd hw) s else [])"
  unfolding emitted_do_amd
  by (cases "cpuid_insn hw 0" rule: prod_cases4; cases "cpuid_insn hw 0x80000000" rule: prod_cases4;
      cases "cpuid_insn hw 0x80000002" rule: prod_cases4;
      cases "cpuid_insn hw 0x80000003" rule: prod_cases4;
      cases "cpuid_insn hw 0x80000004" rule: prod_cases4;
      cases "cpuid_insn hw 0x8FFFFFFF" rule: prod_cases4;
      cases "cpuid_insn hw 1" rule: prod_cases4)
    (simp add: emitted_def trace_brandname brandname_frame do_amd_frame regs_list_def brand_leaves_def)

lemma emitted_l2_cache:
  "emitted (l2_cache hw) s = [Cpuid 0x80000006,
     Logged (Log_l2 (ecx_of (cpuid_insn hw 0x80000006) AND 0xFF)
       (drop_bit 12 (ecx_of (cpuid_insn hw 0x80000006)) AND 0x07)
       (drop_bit 16 (ecx_of (cpuid_insn hw 0x80000006)) AND 0xFFFF))]"
  by (simp add: emitted_def trace_l2_cache)

lemma signature_test:
  "(take 4 (manufacturer_string (fst (brandname_body hw s))) = map Some [0x41, 0x75, 0x74, 0x68])
     = (ebx_of (cpuid_insn hw 0) = 0x68747541)"
  unfolding brandname_frame brandname_frame.simps by (rule signature_bytes)

lemma emitted_cpu_init:
  "emitted (cpu_init hw) s = drop (length (trace s)) (trace (cpu_init hw s))"
  by (simp add: emitted_def)

section \<open>The claims\<close>

text \<open>
  C4. The temperature decoder reads the register 0x19C once, joins the two halves as
  \<open>(hi << 32) | lo\<close> in 64 bits, shifts right by 16 and divides by 256: as a number
  the result is \<open>(hi * 2^32 + lo) div 2^16 div 256\<close>. For \<open>hi = 0\<close> and
  \<open>lo = 0x25000000\<close> it is 37.
\<close>

theorem get_cpu_temperature_decode:
  assumes "rdmsr_insn hw 0x19C = (lo, hi)"
  shows "fst (get_cpu_temperature hw s)
           = drop_bit 16 (push_bit 32 (ucast hi :: u64) OR (ucast lo :: u64)) div 256
       \<and> unat (fst (get_cpu_temperature hw s)) = (unat hi * 2 ^ 32 + unat lo) div 2 ^ 16 div 256
       \<and> emitted (\<lambda>s. snd (get_cpu_temperature hw s)) s = [Rdmsr 0x19C]
       \<and> (hi = 0 \<and> lo = 0x25000000 \<longrightarrow> fst (get_cpu_temperature hw s) = 37)"
proof -
  have v: "fst (get_cpu_temperature hw s)
      = drop_bit 16 (push_bit 32 (ucast hi :: u64) OR (ucast lo :: u64)) div 256"
    by (simp add: get_cpu_temperature_eq assms)
  have n: "unat (fst (get_cpu_temperature hw s)) = (unat hi * 2 ^ 32 + unat lo) div 2 ^ 16 div 256"
    unfolding v by (rule unat_temperature)
  have e: "emitted (\<lambda>s. snd (get_cpu_temperature hw s)) s = [Rdmsr 0x19C]"
    by (simp add: emitted_def get_cpu_temperature_eq)
  have c: "fst (get_cpu_temperature hw s) = 37" if "hi = 0 \<and> lo = 0x25000000"
    unfolding v using that by simp
  from v n e c show ?thesis by blast
qed

theorem get_cpu_temperature_decode_witness:
  "rdmsr_insn cpu_temp37 0x19C = (0x25000000, 0)
   \<and> fst (get_cpu_temperature cpu_temp37 boot_state) = 37
   \<and> unat (fst (get_cpu_temperature cpu_temp37 boot_state)) = 37"
proof -
  have r: "rdmsr_insn cpu_temp37 0x19C = (0x25000000, 0)"
    by (simp add: cpu_temp37_def)
  from get_cpu_temperature_decode [OF r, of boot_state] r show ?thesis
    by simp
qed

text \<open>
  C5. The cache geometry decoder queries leaf 0x80000006 once and logs three fields of its
  third output register ecx: the line size is bits 0-7, the associativity code bits
  12-14, the cache size bits 16-31. For \<open>ecx = 0x02002040\<close> they are 64, 2 and 512.
\<close>

theorem l2_cache_decode:
  assumes "cpuid_insn hw 0x80000006 = (eax, ebx, ecx, edx)"
  shows "\<exists>lsize assoc cache.
           emitted (l2_cache hw) s = [Cpuid 0x80000006, Logged (Log_l2 lsize assoc cache)]
         \<and> unat lsize = unat ecx mod 2 ^ 8
         \<and> unat assoc = unat ecx div 2 ^ 12 mod 2 ^ 3
         \<and> unat cache = unat ecx div 2 ^ 16
         \<and> (ecx = 0x02002040 \<longrightarrow> lsize = 64 \<and> assoc = 2 \<and> cache = 512)"
proof (intro exI conjI)
  show "emitted (l2_cache hw) s = [Cpuid 0x80000006,
      Logged (Log_l2 (ecx AND 0xFF) (drop_bit 12 ecx AND 0x07) (drop_bit 16 ecx AND 0xFFFF))]"
    by (simp add: emitted_def trace_l2_cache assms)
  show "unat (ecx AND 0xFF) = unat ecx mod 2 ^ 8"
    by (rule unat_field_0_8)
  show "unat (drop_bit 12 ecx AND 0x07) = unat ecx div 2 ^ 12 mod 2 ^ 3"
    by (rule unat_field_12_3)
  show "unat (drop_bit 16 ecx AND 0xFFFF) = unat ecx div 2 ^ 16"
    by (rule unat_field_16_16)
  show "ecx = 0x02002040 \<longrightarrow>
      ecx AND 0xFF = 64 \<and> drop_bit 12 ecx AND 0x07 = 2 \<and> drop_bit 16 ecx AND 0xFFFF = 512"
    by simp
qed

theorem l2_cache_decode_witness:
  "cpuid_insn cpu_l2 0x80000006 = (0, 0, 0x02002040, 0)
   \<and> emitted (l2_cache cpu_l2) boot_state = [Cpuid 0x80000006, Logged (Log_l2 64 2 512)]"
proof -
  have r: "cpuid_insn cpu_l2 0x80000006 = (0, 0, 0x02002040, 0)"
    by (simp add: cpu_l2_def)
  from l2_cache_decode [OF r, of boot_state] r show ?thesis
    by auto
qed

text \<open>
  C9. Running the orchestrator twice in a row on the same processor leaves the feature
  flags as they were after the first run.
\<close>

theorem cpu_init_twice_same_flags:
  "feat (cpu_init hw (cpu_init hw s)) = feat (cpu_init hw s)"
  by (simp add: feat_cpu_init)

text \<open>
  C3, as amended. The only access to a model-specific register during the pass is one read
  of register 0x19C, issued exactly when bit 22 of edx of the baseline leaf 1 is set, and
  issued right after that first query: the check in front of it is this baseline bit, not
  bit 5 of edx of leaf 0x80000001, which is queried later. No register is written.
\<close>

theorem cpu_init_msr_access:
  "filter is_msr_access (emitted (cpu_init hw) s)
     = (if bit (edx_of (cpuid_insn hw 1)) 22 then [Rdmsr 0x19C] else [])
   \<and> take 2 (filter is_insn (emitted (cpu_init hw) s))
     = (if bit (edx_of (cpuid_insn hw 1)) 22 then [Cpuid 1, Rdmsr 0x19C] else [Cpuid 1, Cpuid 1])"
  by (simp add: emitted_cpu_init trace_cpu_init emitted_brandname emitted_do_amd emitted_l2_cache
      brand_leaves_def tst_bit)

text \<open>
  C3 as stated fails: on a processor whose leaf 1 has only bit 22 of edx and whose leaf
  0x80000001 reports no model-specific registers, the second instruction of the pass is the
  read of register 0x19C.
\<close>

theorem cpu_init_msr_access_counterexample:
  "\<not> bit (edx_of (cpuid_insn cpu_thermal_no_msr 0x80000001)) 5
   \<and> \<not> bit (edx_of (cpuid_insn cpu_thermal_no_msr 1)) 5
   \<and> take 2 (filter is_insn (trace (cpu_init cpu_thermal_no_msr boot_state)))
       = [Cpuid 1, Rdmsr 0x19C]"
  by (simp add: trace_cpu_init emitted_brandname emitted_do_amd emitted_l2_cache
      brand_leaves_def tst_bit cpu_thermal_no_msr_def no_regs_def boot_state_def bit_iff_odd_drop_bit)

text \<open>
  C1, as amended. When edx of the baseline leaf 1 has only bit 0 set (and bits 28 and 30 of
  its ecx are clear), the pass, run from the state at module load, leaves all five flags
  of the feature state false (thermal MSR, MMX, SSE2, AVX, RDRAND). The feature state has
  no flag for the FPU: bit 0 only makes the pass write the FPU log line.
\<close>

theorem cpu_init_fpu_bit_only:
  assumes "edx_of (cpuid_insn hw 1) = 1"
      and "\<not> bit (ecx_of (cpuid_insn hw 1)) 28"
      and "\<not> bit (ecx_of (cpuid_insn hw 1)) 30"
  shows "feat (cpu_init hw boot_state) = features0
       \<and> Logged Log_FPU \<in> set (emitted (cpu_init hw) boot_state)"
proof -
  have bits: "bit (1::u32) 0" "\<not> bit (1::u32) 22" "\<not> bit (1::u32) 23" "\<not> bit (1::u32) 25"
    by (simp_all add: bit_1_iff)
  have "feat (cpu_init hw boot_state) = features0"
    using assms bits by (simp add: feat_cpu_init tst_bit boot_state_def features0_def)
  moreover have "Logged Log_FPU \<in> set (emitted (cpu_init hw) boot_state)"
    using assms(1) bits(1) by (simp add: emitted_cpu_init trace_cpu_init tst_bit)
  ultimately show ?thesis by simp
qed

theorem cpu_init_fpu_bit_only_witness:
  "edx_of (cpuid_insn cpu_fpu_only 1) = 1
   \<and> \<not> bit (ecx_of (cpuid_insn cpu_fpu_only 1)) 28
   \<and> \<not> bit (ecx_of (cpuid_insn cpu_fpu_only 1)) 30
   \<and> feat (cpu_init cpu_fpu_only boot_state) = features0
   \<and> Logged Log_FPU \<in> set (emitted (cpu_init cpu_fpu_only) boot_state)"
proof -
  have r: "cpuid_insn cpu_fpu_only 1 = (0, 0, 0, 1)"
    by (simp add: cpu_fpu_only_def)
  have h: "edx_of (cpuid_insn cpu_fpu_only 1) = 1"
    "\<not> bit (ecx_of (cpuid_insn cpu_fpu_only 1)) 28"
    "\<not> bit (ecx_of (cpuid_insn cpu_fpu_only 1)) 30"
    by (simp_all add: r)
  from cpu_init_fpu_bit_only [OF h] h show ?thesis by simp
qed

text \<open>
  C1 as stated fails: the feature state has no FPU flag. A processor whose leaf 1 has
  edx = 1 and one whose leaf 1 has edx = 0 leave the same feature state, the one the
  module was loaded with, in which no flag is true.
\<close>

theorem cpu_init_fpu_flag_counterexample:
  "edx_of (cpuid_insn cpu_fpu_only 1) = 1
   \<and> edx_of (cpuid_insn cpu_blank 1) = 0
   \<and> feat (cpu_init cpu_fpu_only boot_state) = feat (cpu_init cpu_blank boot_state)
   \<and> feat (cpu_init cpu_fpu_only boot_state) = features0"
proof -
  have bits: "\<not> bit (1::u32) 22" "\<not> bit (1::u32) 23" "\<not> bit (1::u32) 25"
    by (simp_all add: bit_1_iff)
  have r: "cpuid_insn cpu_fpu_only 1 = (0, 0, 0, 1)" "cpuid_insn cpu_blank 1 = (0, 0, 0, 0)"
    by (simp_all add: cpu_fpu_only_def cpu_blank_def no_regs_def)
  show ?thesis
    using bits by (simp add: feat_cpu_init r tst_bit boot_state_def features0_def)
qed

text \<open>
  C2, as amended. The pass queries leaf 0x80000000 and logs the maximum it reports; it then
  queries leaf 0x80000001 and leaf 0x80000007, once each and in this order, and decodes
  their bits, whatever that maximum is: the maximum is not compared with anything in the
  orchestrator. (The second query of leaf 0x80000000 is the one of the vendor/brand
  decoder.)
\<close>

theorem cpu_init_extended_queries:
  "filter is_ext_query (emitted (cpu_init hw) s)
     = [Cpuid 0x80000000, Cpuid 0x80000001, Cpuid 0x80000007, Cpuid 0x80000000]
   \<and> (\<exists>pre post. emitted (cpu_init hw) s = pre @
        [Cpuid 0x80000000,
         Logged (Log_max_function (eax_of (cpuid_insn hw 0x80000000))
           (eax_of (cpuid_insn hw 0x80000000))),
         Cpuid 0x80000001] @
        opt (bit (edx_of (cpuid_insn hw 0x80000001)) 5) (Logged Log_MSR) @
        opt (bit (edx_of (cpuid_insn hw 0x80000001)) 6) (Logged Log_PAE) @
        opt (bit (edx_of (cpuid_insn hw 0x80000001)) 7) (Logged Log_MCE) @
        opt (bit (edx_of (cpuid_insn hw 0x80000001)) 9) (Logged Log_APIC) @
        opt (bit (edx_of (cpuid_insn hw 0x80000001)) 10) (Printed Log_SYSCALL_K6) @
        opt (bit (edx_of (cpuid_insn hw 0x80000001)) 11) (Logged Log_SYSCALL) @
        opt (bit (edx_of (cpuid_insn hw 0x80000001)) 29) (Logged Log_AMD64) @
        opt (bit (ecx_of (cpuid_insn hw 0x80000001)) 6) (Logged Log_SSE4a) @
        opt (bit (ecx_of (cpuid_insn hw 0x80000001)) 7) (Logged Log_misaligned_SSE) @
        [Cpuid 0x80000007] @
        opt (bit (ebx_of (cpuid_insn hw 0x80000007)) 0) (Logged Log_MCA_overflow) @
        opt (bit (ebx_of (cpuid_insn hw 0x80000007)) 1) (Logged Log_SUCCOR) @
        opt (bit (edx_of (cpuid_insn hw 0x80000007)) 0) (Logged Log_temp_sensor) @
        opt (bit (edx_of (cpuid_insn hw 0x80000007)) 3) (Logged Log_thermal_trip) @
        opt (bit (edx_of (cpuid_insn hw 0x80000007)) 4) (Logged Log_HTC) @
        opt (bit (edx_of (cpuid_insn hw 0x80000007)) 5) (Logged Log_STC) @
        opt (bit (edx_of (cpuid_insn hw 0x80000007)) 6) (Logged Log_100MHz) @
        post)"
proof (intro conjI)
  show "filter is_ext_query (emitted (cpu_init hw) s)
     = [Cpuid 0x80000000, Cpuid 0x80000001, Cpuid 0x80000007, Cpuid 0x80000000]"
    by (simp add: emitted_cpu_init trace_cpu_init emitted_brandname emitted_do_amd
        emitted_l2_cache brand_leaves_def is_ext_query_def)
  show "\<exists>pre post. emitted (cpu_init hw) s = pre @
        [Cpuid 0x80000000,
         Logged (Log_max_function (eax_of (cpuid_insn hw 0x80000000))
           (eax_of (cpuid_insn hw 0x80000000))),
         Cpuid 0x80000001] @
        opt (bit (edx_of (cpuid_insn hw 0x80000001)) 5) (Logged Log_MSR) @
        opt (bit (edx_of (cpuid_insn hw 0x80000001)) 6) (Logged Log_PAE) @
        opt (bit (edx_of (cpuid_insn hw 0x80000001)) 7) (Logged Log_MCE) @
        opt (bit (edx_of (cpuid_insn hw 0x80000001)) 9) (Logged Log_APIC) @
        opt (bit (edx_of (cpuid_insn hw 0x80000001)) 10) (Printed Log_SYSCALL_K6) @
        opt (bit (edx_of (cpuid_insn hw 0x80000001)) 11) (Logged Log_SYSCALL) @
        opt (bit (edx_of (cpuid_insn hw 0x80000001)) 29) (Logged Log_AMD64) @
        opt (bit (ecx_of (cpuid_insn hw 0x80000001)) 6) (Logged Log_SSE4a) @
        opt (bit (ecx_of (cpuid_insn hw 0x80000001)) 7) (Logged Log_misaligned_SSE) @
        [Cpuid 0x80000007] @
        opt (bit (ebx_of (cpuid_insn hw 0x80000007)) 0) (Logged Log_MCA_overflow) @
        opt (bit (ebx_of (cpuid_insn hw 0x80000007)) 1) (Logged Log_SUCCOR) @
        opt (bit (edx_of (cpuid_insn hw 0x80000007)) 0) (Logged Log_temp_sensor) @
        opt (bit (edx_of (cpuid_insn hw 0x80000007)) 3) (Logged Log_thermal_trip) @
        opt (bit (edx_of (cpuid_insn hw 0x80000007)) 4) (Logged Log_HTC) @
        opt (bit (edx_of (cpuid_insn hw 0x80000007)) 5) (Logged Log_STC) @
        opt (bit (edx_of (cpuid_insn hw 0x80000007)) 6) (Logged Log_100MHz) @
        post"
    unfolding emitted_cpu_init trace_cpu_init tst_bit
    by (rule exI [where x = "[Cpuid 1] @
          opt (bit (edx_of (cpuid_insn hw 1)) 0) (Logged Log_FPU) @
          (if bit (edx_of (cpuid_insn hw 1)) 22
           then [Logged Log_ACPI_MSRS, Rdmsr 0x19C,
                 Logged (Log_temperature (fst (get_cpu_temperature hw boot_state)))]
           else []) @
          opt (bit (edx_of (cpuid_insn hw 1)) 23) (Logged Log_MMX) @
          opt (bit (edx_of (cpuid_insn hw 1)) 25) (Logged Log_SSE2) @
          [Cpuid 1] @
          opt (bit (edx_of (cpuid_insn hw 1)) 29) (Logged Log_thermal_limit) @
          opt (bit (ecx_of (cpuid_insn hw 1)) 28) (Logged Log_AVX) @
          opt (bit (ecx_of (cpuid_insn hw 1)) 26) (Logged Log_XSAVE) @
          opt (bit (ecx_of (cpuid_insn hw 1)) 30) (Logged Log_RDRND)"],
        rule exI [where x = "[Cpuid 0xC0000000] @
          opt (eax_of (cpuid_insn hw 0xC0000000) > 0xC0000000)
            (Logged (Log_C0000000 (eax_of (cpuid_insn hw 0xC0000000))
               (eax_of (cpuid_insn hw 0xC0000000)))) @
          emitted (brandname hw) boot_state @ emitted (l2_cache hw) boot_state"])
      simp
qed

text \<open>
  C2 as stated fails: a processor that reports 0x80000000 as its highest extended leaf is
  still asked for leaves 0x80000001 and 0x80000007, and what they answer is decoded and
  logged.
\<close>

theorem cpu_init_extended_queries_counterexample:
  "eax_of (cpuid_insn cpu_no_ext 0x80000000) < 0x80000001
   \<and> Cpuid 0x80000001 \<in> set (trace (cpu_init cpu_no_ext boot_state))
   \<and> Cpuid 0x80000007 \<in> set (trace (cpu_init cpu_no_ext boot_state))
   \<and> Logged Log_AMD64 \<in> set (trace (cpu_init cpu_no_ext boot_state))
   \<and> Logged Log_temp_sensor \<in> set (trace (cpu_init cpu_no_ext boot_state))"
proof -
  have r: "cpuid_insn cpu_no_ext 0x80000000 = (0x80000000, 0, 0, 0)"
    "cpuid_insn cpu_no_ext 0x80000001 = (0, 0, 0, 0x20000000)"
    "cpuid_insn cpu_no_ext 0x80000007 = (0, 0, 0, 1)"
    by (simp_all add: cpu_no_ext_def)
  have b: "tst (0x20000000::u32) 29" "tst (1::u32) 0"
    by (simp_all add: tst_def drop_bit_eq_div)
  show ?thesis
    by (simp add: trace_cpu_init r b)
qed

text \<open>
  C6. For every answer of the zero-selector query, the vendor/brand decoder runs the
  AMD-only query exactly once when the first four bytes of the vendor string are
  "Auth" (0x41 0x75 0x74 0x68), and not at all otherwise: leaf 0x8FFFFFFF, which only that
  query issues, is issued once or never, and the log lines of that query appear as the
  query writes them or not at all. The query reads the model from bits 4-7 and the family
  from bits 8-11 of eax of leaf 1.
\<close>

theorem brandname_amd_path:
  "count_list (emitted (brandname hw) s) (Cpuid 0x8FFFFFFF)
     = (if take 4 (manufacturer_string (fst (brandname_body hw s)))
            = map Some [0x41, 0x75, 0x74, 0x68]
        then 1 else 0)
   \<and> filter is_amd_log (emitted (brandname hw) s)
     = (if take 4 (manufacturer_string (fst (brandname_body hw s)))
            = map Some [0x41, 0x75, 0x74, 0x68]
        then filter is_amd_log (emitted (do_amd hw) s) else [])
   \<and> emitted (do_amd hw) s
     = [Cpuid 0x8FFFFFFF, Cpuid 1,
        Logged (Log_amd_eggs (eggs_string (fst (do_amd_body hw s)))),
        Logged (Log_cpu_model (cpu_model (fst (do_amd_body hw s)))),
        Logged (Log_cpu_family (cpu_family (fst (do_amd_body hw s))))]
   \<and> unat (cpu_model (fst (do_amd_body hw s)))
     = unat (eax_of (cpuid_insn hw 1)) div 2 ^ 4 mod 2 ^ 4
   \<and> unat (cpu_family (fst (do_amd_body hw s)))
     = unat (eax_of (cpuid_insn hw 1)) div 2 ^ 8 mod 2 ^ 4"
proof (intro conjI)
  show "count_list (emitted (brandname hw) s) (Cpuid 0x8FFFFFFF)
     = (if take 4 (manufacturer_string (fst (brandname_body hw s)))
            = map Some [0x41, 0x75, 0x74, 0x68]
        then 1 else 0)"
    unfolding signature_test
    by (simp add: emitted_brandname emitted_do_amd brand_leaves_def)
  show "filter is_amd_log (emitted (brandname hw) s)
     = (if take 4 (manufacturer_string (fst (brandname_body hw s)))
            = map Some [0x41, 0x75, 0x74, 0x68]
        then filter is_amd_log (emitted (do_amd hw) s) else [])"
    unfolding signature_test
    by (simp add: emitted_brandname emitted_do_amd brand_leaves_def)
  show "emitted (do_amd hw) s
     = [Cpuid 0x8FFFFFFF, Cpuid 1,
        Logged (Log_amd_eggs (eggs_string (fst (do_amd_body hw s)))),
        Logged (Log_cpu_model (cpu_model (fst (do_amd_body hw s)))),
        Logged (Log_cpu_family (cpu_family (fst (do_amd_body hw s))))]"
    by (rule emitted_do_amd)
  show "unat (cpu_model (fst (do_amd_body hw s)))
     = unat (eax_of (cpuid_insn hw 1)) div 2 ^ 4 mod 2 ^ 4"
    unfolding do_amd_frame do_amd_frame.simps by (rule unat_nibble)
  show "unat (cpu_family (fst (do_amd_body hw s)))
     = unat (eax_of (cpuid_insn hw 1)) div 2 ^ 8 mod 2 ^ 4"
    unfolding do_amd_frame do_amd_frame.simps by (rule unat_nibble)
qed

theorem brandname_amd_path_witness:
  "count_list (emitted (brandname cpu_amd_k8) boot_state) (Cpuid 0x8FFFFFFF) = 1
   \<and> count_list (emitted (brandname cpu_genuine_intel) boot_state) (Cpuid 0x8FFFFFFF) = 0
   \<and> unat (cpu_model (fst (do_amd_body cpu_amd_k8 boot_state))) = 4
   \<and> unat (cpu_family (fst (do_amd_body cpu_amd_k8 boot_state))) = 15"
proof -
  have r: "cpuid_insn cpu_amd_k8 0 = (0x00000001, 0x68747541, 0x444D4163, 0x69746E65)"
    "cpuid_insn cpu_amd_k8 1 = (0x00000F48, 0, 0, 0)"
    "cpuid_insn cpu_genuine_intel 0 = (0x0000000D, 0x756E6547, 0x6C65746E, 0x49656E69)"
    by (simp_all add: cpu_amd_k8_def cpu_genuine_intel_def)
  have s1: "take 4 (manufacturer_string (fst (brandname_body cpu_amd_k8 boot_state)))
      = map Some [0x41, 0x75, 0x74, 0x68]"
    by (simp add: brandname_frame r le_bytes_def)
  have s2: "take 4 (manufacturer_string (fst (brandname_body cpu_genuine_intel boot_state)))
      = map Some [0x47, 0x65, 0x6E, 0x75]"
    by (simp add: brandname_frame r le_bytes_def)
  from brandname_amd_path [of cpu_amd_k8 boot_state]
    brandname_amd_path [of cpu_genuine_intel boot_state]
  show ?thesis
    by (simp add: s1 s2 r)
qed

text \<open>
  C7. The vendor/brand decoder issues the three brand leaves 0x80000002-0x80000004, in this
  order, copies their twelve registers into the first 48 bytes of the brand buffer and
  logs the buffer, exactly when the maximum that leaf 0x80000000 reports is at least
  0x80000004 as an unsigned number. For a smaller maximum none of the three leaves is
  issued, no brand line is logged and none of the 48 bytes is ever written. Byte 48 of
  the 49-byte buffer is the terminator in both cases.
\<close>

theorem brandname_brand_string:
  "(if eax_of (cpuid_insn hw 0x80000000) \<ge> 0x80000004
    then filter is_brand_query (emitted (brandname hw) s) = brand_leaves
       \<and> take 48 (brand_string (fst (brandname_body hw s)))
           = map Some (bytes_of (regs_list (cpuid_insn hw 0x80000002)
               @ regs_list (cpuid_insn hw 0x80000003) @ regs_list (cpuid_insn hw 0x80000004)))
       \<and> filter is_brand_log (emitted (brandname hw) s)
           = [Logged (Log_brand (brand_string (fst (brandname_body hw s))))]
    else filter is_brand_query (emitted (brandname hw) s) = []
       \<and> take 48 (brand_string (fst (brandname_body hw s))) = replicate 48 None
       \<and> filter is_brand_log (emitted (brandname hw) s) = [])
   \<and> length (brand_string (fst (brandname_body hw s))) = 49
   \<and> brand_string (fst (brandname_body hw s)) ! 48 = Some 0"
proof -
  have len: "length (bytes_of (regs_list (cpuid_insn hw 0x80000002)
      @ regs_list (cpuid_insn hw 0x80000003) @ regs_list (cpuid_insn hw 0x80000004))) = 48"
    by (simp add: bytes_of_def regs_list_def)
  have q: "filter is_brand_query (emitted (brandname hw) s)
      = (if eax_of (cpuid_insn hw 0x80000000) \<ge> 0x80000004 then brand_leaves else [])"
    by (simp add: emitted_brandname emitted_do_amd brand_leaves_def is_brand_query_def)
  have l: "filter is_brand_log (emitted (brandname hw) s)
      = (if eax_of (cpuid_insn hw 0x80000000) \<ge> 0x80000004
         then [Logged (Log_brand (brand_string (fst (brandname_body hw s))))] else [])"
    by (simp add: emitted_brandname emitted_do_amd brand_leaves_def)
  have b: "take 48 (brand_string (fst (brandname_body hw s)))
      = (if eax_of (cpuid_insn hw 0x80000000) \<ge> 0x80000004
         then map Some (bytes_of (regs_list (cpuid_insn hw 0x80000002)
               @ regs_list (cpuid_insn hw 0x80000003) @ regs_list (cpuid_insn hw 0x80000004)))
         else replicate 48 None)"
    using len by (simp add: brandname_frame)
  have n: "length (brand_string (fst (brandname_body hw s))) = 49"
    using len by (simp add: brandname_frame)
  have t: "brand_string (fst (brandname_body hw s)) ! 48 = Some 0"
    using len by (simp add: brandname_frame nth_append)
  from q l b n t show ?thesis by simp
qed

theorem brandname_brand_string_witness:
  "filter is_brand_query (emitted (brandname cpu_amd_k8) boot_state) = brand_leaves
   \<and> take 4 (brand_string (fst (brandname_body cpu_amd_k8 boot_state)))
       = map Some [0x41, 0x4D, 0x44, 0x20]
   \<and> filter is_brand_query (emitted (brandname cpu_genuine_intel) boot_state) = []
   \<and> take 48 (brand_string (fst (brandname_body cpu_genuine_intel boot_state)))
       = replicate 48 None"
proof -
  have r: "cpuid_insn cpu_amd_k8 0x80000000 = (0x80000018, 0x68747541, 0x444D4163, 0x69746E65)"
    "cpuid_insn cpu_amd_k8 0x80000002 = (0x20444D41, 0x6C687441, 0x74286E6F, 0x3620296D)"
    "cpuid_insn cpu_genuine_intel 0x80000000 = (0, 0, 0, 0)"
    by (simp_all add: cpu_amd_k8_def cpu_genuine_intel_def no_regs_def)
  have "take 4 (take 48 (brand_string (fst (brandname_body cpu_amd_k8 boot_state))))
       = map Some [0x41, 0x4D, 0x44, 0x20]"
    using brandname_brand_string [of cpu_amd_k8 boot_state]
    by (simp add: r bytes_of_def regs_list_def le_bytes_def)
  then have "take 4 (brand_string (fst (brandname_body cpu_amd_k8 boot_state)))
       = map Some [0x41, 0x4D, 0x44, 0x20]"
    by simp
  with brandname_brand_string [of cpu_amd_k8 boot_state]
    brandname_brand_string [of cpu_genuine_intel boot_state]
  show ?thesis
    by (simp add: r)
qed

text \<open>
  C8, as amended. The vendor string is assembled from the registers of the zero-selector
  query in the order second, fourth, third output register: bytes 0-3 are the bytes of ebx,
  bytes 4-7 those of edx, bytes 8-11 those of ecx (the first output register, eax, is not
  part of it). Byte 12 of the 13-byte buffer is set to the null terminator before the
  buffer is logged, right after the query, so the logger finds the end of the string
  inside the buffer.
\<close>

theorem brandname_vendor_string:
  "manufacturer_string (fst (brandname_body hw s))
     = map Some (le_bytes (ebx_of (cpuid_insn hw 0)) @ le_bytes (edx_of (cpuid_insn hw 0))
         @ le_bytes (ecx_of (cpuid_insn hw 0))) @ [Some 0]
   \<and> length (manufacturer_string (fst (brandname_body hw s))) = 13
   \<and> manufacturer_string (fst (brandname_body hw s)) ! 12 = Some 0
   \<and> take 2 (emitted (brandname hw) s)
     = [Cpuid 0, Logged (Log_manufacturer (manufacturer_string (fst (brandname_body hw s))))]
   \<and> c_str (manufacturer_string (fst (brandname_body hw s))) \<noteq> None"
proof (intro conjI)
  show "manufacturer_string (fst (brandname_body hw s))
     = map Some (le_bytes (ebx_of (cpuid_insn hw 0)) @ le_bytes (edx_of (cpuid_insn hw 0))
         @ le_bytes (ecx_of (cpuid_insn hw 0))) @ [Some 0]"
    by (simp add: brandname_frame)
  show "length (manufacturer_string (fst (brandname_body hw s))) = 13"
    by (simp add: brandname_frame)
  show "manufacturer_string (fst (brandname_body hw s)) ! 12 = Some 0"
    by (simp add: brandname_frame nth_append)
  show "take 2 (emitted (brandname hw) s)
     = [Cpuid 0, Logged (Log_manufacturer (manufacturer_string (fst (brandname_body hw s))))]"
    by (simp add: emitted_brandname)
  show "c_str (manufacturer_string (fst (brandname_body hw s))) \<noteq> None"
    unfolding brandname_frame brandname_frame.simps by (rule c_str_terminated)
qed

text \<open>
  C8 as stated fails: on an Intel processor the vendor string reads "GenuineIntel", which
  is ebx, edx, ecx, and not the bytes of the first, third and second output register
  (eax, ecx, ebx).
\<close>

theorem brandname_vendor_order_counterexample:
  "take 12 (manufacturer_string (fst (brandname_body cpu_genuine_intel boot_state)))
     = map Some [0x47, 0x65, 0x6E, 0x75, 0x69, 0x6E, 0x65, 0x49, 0x6E, 0x74, 0x65, 0x6C]
   \<and> take 12 (manufacturer_string (fst (brandname_body cpu_genuine_intel boot_state)))
     \<noteq> map Some (le_bytes (eax_of (cpuid_insn cpu_genuine_intel 0))
           @ le_bytes (ecx_of (cpuid_insn cpu_genuine_intel 0))
           @ le_bytes (ebx_of (cpuid_insn cpu_genuine_intel 0)))"
proof -
  have r: "cpuid_insn cpu_genuine_intel 0 = (0x0000000D, 0x756E6547, 0x6C65746E, 0x49656E69)"
    by (simp add: cpu_genuine_intel_def)
  show ?thesis
    by (simp add: brandname_frame r le_bytes_def)
qed

text \<open>
  C10 fails on the code. \<^verbatim>\<open>do_amd\<close> copies 12 bytes into its 13-byte buffer and never
  writes byte 12 (\<^verbatim>\<open>brandname\<close> does, for its own buffers). On an AMD K8, whose leaf
  0x8FFFFFFF answers twelve non-zero bytes, the buffer handed to the logger has no
  terminator: reading it as a string reaches the unwritten byte.
\<close>

theorem do_amd_eggs_unterminated:
  "length (eggs_string (fst (do_amd_body cpu_amd_k8 boot_state))) = 13
   \<and> take 12 (eggs_string (fst (do_amd_body cpu_amd_k8 boot_state)))
       = map Some [0x49, 0x54, 0x27, 0x53, 0x20, 0x48, 0x41, 0x4D, 0x4D, 0x45, 0x52, 0x20]
   \<and> eggs_string (fst (do_amd_body cpu_amd_k8 boot_state)) ! 12 = None
   \<and> c_str (eggs_string (fst (do_amd_body cpu_amd_k8 boot_state))) = None
   \<and> Logged (Log_amd_eggs (eggs_string (fst (do_amd_body cpu_amd_k8 boot_state))))
       \<in> set (trace (cpu_init cpu_amd_k8 boot_state))"
proof -
  have r: "cpuid_insn cpu_amd_k8 0x8FFFFFFF = (0x53275449, 0x4D414820, 0x2052454D, 0x454D4954)"
    "cpuid_insn cpu_amd_k8 0 = (0x00000001, 0x68747541, 0x444D4163, 0x69746E65)"
    by (simp_all add: cpu_amd_k8_def)
  have e: "eggs_string (fst (do_amd_body cpu_amd_k8 boot_state))
      = map Some [0x49, 0x54, 0x27, 0x53, 0x20, 0x48, 0x41, 0x4D, 0x4D, 0x45, 0x52, 0x20] @ [None]"
    by (simp add: do_amd_frame r le_bytes_def)
  have c: "c_str (eggs_string (fst (do_amd_body cpu_amd_k8 boot_state))) = None"
    unfolding e by (rule c_str_unterminated) simp
  have l: "Logged (Log_amd_eggs (eggs_string (fst (do_amd_body cpu_amd_k8 boot_state))))
       \<in> set (trace (cpu_init cpu_amd_k8 boot_state))"
    by (simp add: trace_cpu_init emitted_brandname emitted_do_amd r)
  show ?thesis
    using c l by (simp add: e)
qed

end
